theory Spec2Isabelle
  imports Main "HOL-Library.Sublist"
begin

section \<open>The parsed feed document\<close>

text \<open>
  \<^verbatim>\<open>parse_rss_feed_data\<close> of \<^verbatim>\<open>src/rss.py\<close> works on what
  \<^verbatim>\<open>xmltodict.parse\<close> returns: a tree of dictionaries, lists, strings and
  \<^verbatim>\<open>None\<close>. A dictionary is an association list (insertion order is what iterating
  a Python dictionary follows); \<open>map_of\<close> reads it, so the first binding of a key
  is the one that counts.
\<close>

datatype pyval =
    PNone
  | PStr string
  | PList "pyval list"
  | PDict "(string \<times> pyval) list"

datatype py_error = KeyError | TypeError | AttributeError

type_synonym py_record = "(string \<times> pyval) list"

type_synonym tickers_mapping = "string \<rightharpoonup> string list"

text \<open>\<^verbatim>\<open>d[k]\<close> with a string key: only a dictionary can be indexed by a string.\<close>

fun py_getitem :: "pyval \<Rightarrow> string \<Rightarrow> py_error + pyval" where
  "py_getitem (PDict kvs) k = (case map_of kvs k of None \<Rightarrow> Inl KeyError | Some v \<Rightarrow> Inr v)"
| "py_getitem PNone k = Inl TypeError"
| "py_getitem (PStr s) k = Inl TypeError"
| "py_getitem (PList xs) k = Inl TypeError"

text \<open>\<^verbatim>\<open>d.get(k)\<close>: only a dictionary has the method.\<close>

fun py_get :: "pyval \<Rightarrow> string \<Rightarrow> py_error + pyval" where
  "py_get (PDict kvs) k = Inr (case map_of kvs k of None \<Rightarrow> PNone | Some v \<Rightarrow> v)"
| "py_get PNone k = Inl AttributeError"
| "py_get (PStr s) k = Inl AttributeError"
| "py_get (PList xs) k = Inl AttributeError"

text \<open>
  \<^verbatim>\<open>for x in v\<close>: a list gives its elements, a dictionary its keys, a string its
  characters as one-character strings; \<^verbatim>\<open>None\<close> is not iterable.
\<close>

fun py_iter :: "pyval \<Rightarrow> py_error + pyval list" where
  "py_iter (PList xs) = Inr xs"
| "py_iter (PDict kvs) = Inr (map (\<lambda>kv. PStr (fst kv)) kvs)"
| "py_iter (PStr s) = Inr (map (\<lambda>c. PStr [c]) s)"
| "py_iter PNone = Inl TypeError"

text \<open>\<^verbatim>\<open>sep.join(xs)\<close> on a list of strings.\<close>

fun str_join :: "string \<Rightarrow> string list \<Rightarrow> string" where
  "str_join sep [] = []"
| "str_join sep [x] = x"
| "str_join sep (x # y # ys) = x @ sep @ str_join sep (y # ys)"

text \<open>\<^verbatim>\<open>s.lstrip("0")\<close>.\<close>

definition lstrip0 :: "string \<Rightarrow> string" where
  "lstrip0 s = dropWhile (\<lambda>c. c = CHR ''0'') s"

section \<open>The helpers of \<^verbatim>\<open>src/utils.py\<close>\<close>

text \<open>
  Modelled from the spec: \<^verbatim>\<open>safe_get\<close> of \<^verbatim>\<open>src.utils\<close>, which
  \<^verbatim>\<open>rss.py\<close> imports and which is not among the source files. The spec calls it a
  safe nested-path lookup over a tree of mappings: any missing intermediate key yields a
  null value instead of failing. A value that is not a mapping has no keys, so every key
  is missing there.
\<close>

fun safe_get :: "pyval \<Rightarrow> string list \<Rightarrow> pyval" where
  "safe_get d [] = d"
| "safe_get d (k # ks) =
     (case d of
        PDict kvs \<Rightarrow> (case map_of kvs k of None \<Rightarrow> PNone | Some v \<Rightarrow> safe_get v ks)
      | _ \<Rightarrow> PNone)"

fun strs_of :: "pyval list \<Rightarrow> string list option" where
  "strs_of [] = Some []"
| "strs_of (PStr s # vs) = (case strs_of vs of None \<Rightarrow> None | Some ss \<Rightarrow> Some (s # ss))"
| "strs_of (v # vs) = None"

text \<open>
  Modelled from the spec: \<^verbatim>\<open>unpack_singleton_list\<close> of \<^verbatim>\<open>src.utils\<close>, not
  among the source files either. The spec: a list of exactly one element collapses to that
  element, any other list is joined into a newline-separated string.
  \<^verbatim>\<open>"\n".join\<close> raises \<^verbatim>\<open>TypeError\<close> on an element that is not a string.
\<close>

definition unpack_singleton_list :: "pyval list \<Rightarrow> py_error + pyval" where
  "unpack_singleton_list l =
     (case l of
        [x] \<Rightarrow> Inr x
      | _ \<Rightarrow> (case strs_of l of
                None \<Rightarrow> Inl TypeError
              | Some ss \<Rightarrow> Inr (PStr (str_join [CHR 0x0A] ss))))"

section \<open>\<^verbatim>\<open>parse_rss_feed_data\<close>\<close>

definition UNKNOWN_TICKER_PLACEHOLDER :: string where
  "UNKNOWN_TICKER_PLACEHOLDER = ''UNKNOWN''"

text \<open>Line 84: the CIK number of an item.\<close>

definition item_cik :: "pyval \<Rightarrow> pyval" where
  "item_cik i = safe_get i [''edgar:xbrlFiling'', ''edgar:cikNumber'']"

text \<open>Line 88: \<^verbatim>\<open>cik.lstrip("0") if isinstance(cik, str) else None\<close>.\<close>

fun trimmed_cik_of :: "pyval \<Rightarrow> string option" where
  "trimmed_cik_of (PStr s) = Some (lstrip0 s)"
| "trimmed_cik_of PNone = None"
| "trimmed_cik_of (PList xs) = None"
| "trimmed_cik_of (PDict kvs) = None"

text \<open>
  Line 91: \<^verbatim>\<open>tickers_mapping.get(trimmed_cik, [])\<close>. The mapping is loaded from a
  JSON object, whose keys are strings: \<^verbatim>\<open>None\<close> is never one of them.
\<close>

fun mapping_get :: "tickers_mapping \<Rightarrow> string option \<Rightarrow> string list" where
  "mapping_get m None = []"
| "mapping_get m (Some k) = (case m k of None \<Rightarrow> [] | Some ts \<Rightarrow> ts)"

definition matching_tickers_for_item_cik :: "tickers_mapping \<Rightarrow> pyval \<Rightarrow> string list" where
  "matching_tickers_for_item_cik m i = mapping_get m (trimmed_cik_of (item_cik i))"

text \<open>
  Lines 94 to 104. \<^verbatim>\<open>next((t for t in tickers if t in matching), None)\<close> is
  \<open>find\<close>; the \<^verbatim>\<open>or\<close> chain takes the first operand that is truthy, and both
  \<^verbatim>\<open>None\<close> and the empty string are falsy.
\<close>

definition matched_ticker_str :: "string list \<Rightarrow> string list \<Rightarrow> string" where
  "matched_ticker_str tickers matching =
     (case find (\<lambda>t. t \<in> set matching) tickers of
        Some (c # cs) \<Rightarrow> c # cs
      | _ \<Rightarrow> (case str_join ''/'' matching of
                c # cs \<Rightarrow> c # cs
              | [] \<Rightarrow> UNKNOWN_TICKER_PLACEHOLDER))"

text \<open>Lines 108 to 125: whether the item is skipped (\<^verbatim>\<open>continue\<close>).\<close>

definition skip_item :: "string list \<Rightarrow> string list \<Rightarrow> string \<Rightarrow> bool" where
  "skip_item tickers matching matched =
     (if tickers \<noteq> [] then
        (if matching = [] then True
         else if matched = UNKNOWN_TICKER_PLACEHOLDER then True
         else if matched \<notin> set tickers then True
         else False)
      else False)"

text \<open>
  Lines 128 to 152: the record without its files. \<^verbatim>\<open>i.get\<close> needs a dictionary;
  the lookups through \<open>safe_get\<close> cannot fail.
\<close>

definition opt_str :: "string option \<Rightarrow> pyval" where
  "opt_str s = (case s of None \<Rightarrow> PNone | Some t \<Rightarrow> PStr t)"

definition filing :: "pyval \<Rightarrow> string \<Rightarrow> pyval" where
  "filing i k = safe_get i [''edgar:xbrlFiling'', k]"

definition record_fields :: "pyval \<Rightarrow> string \<Rightarrow> pyval \<Rightarrow> pyval \<Rightarrow> pyval \<Rightarrow> pyval \<Rightarrow> py_record" where
  "record_fields i matched published_date title link description =
     [(''company_name'', filing i ''edgar:companyName''),
      (''cik'', item_cik i),
      (''trimmed_cik'', opt_str (trimmed_cik_of (item_cik i))),
      (''ticker'', PStr matched),
      (''published_date'', published_date),
      (''title'', title),
      (''link'', link),
      (''description'', description),
      (''form'', filing i ''edgar:formType''),
      (''filing_date'', filing i ''edgar:filingDate''),
      (''file_number'', filing i ''edgar:fileNumber''),
      (''accession_number'', filing i ''edgar:accessionNumber''),
      (''acceptance_date'', filing i ''edgar:acceptanceDatetime''),
      (''period'', filing i ''edgar:period''),
      (''assistant_director'', filing i ''edgar:assistantDirector''),
      (''assigned_sic'', filing i ''edgar:assignedSic''),
      (''fiscal_year_end'', filing i ''edgar:fiscalYearEnd'')]"

definition parsed_line :: "pyval \<Rightarrow> string \<Rightarrow> py_error + py_record" where
  "parsed_line i matched =
     (case py_get i ''pubDate'' of Inl e \<Rightarrow> Inl e | Inr published_date \<Rightarrow>
       (case py_get i ''title'' of Inl e \<Rightarrow> Inl e | Inr title \<Rightarrow>
         (case py_get i ''link'' of Inl e \<Rightarrow> Inl e | Inr link \<Rightarrow>
           (case py_get i ''description'' of Inl e \<Rightarrow> Inl e | Inr description \<Rightarrow>
              Inr (record_fields i matched published_date title link description)))))"

text \<open>Line 159: \<^verbatim>\<open>[f.get("@edgar:url") for f in files_urls]\<close>, over the iterated values.\<close>

fun urls_of :: "pyval list \<Rightarrow> py_error + pyval list" where
  "urls_of [] = Inr []"
| "urls_of (f # fs) =
     (case py_get f ''@edgar:url'' of
        Inl e \<Rightarrow> Inl e
      | Inr u \<Rightarrow> (case urls_of fs of Inl e \<Rightarrow> Inl e | Inr us \<Rightarrow> Inr (u # us)))"

text \<open>Lines 155 to 160: the value stored under \<^verbatim>\<open>xbrl_files\<close>.\<close>

definition xbrl_files :: "bool \<Rightarrow> pyval \<Rightarrow> py_error + pyval" where
  "xbrl_files files_urls_as_text i =
     (let files_urls = safe_get i [''edgar:xbrlFiling'', ''edgar:xbrlFiles'', ''edgar:xbrlFile'']
      in if files_urls_as_text then
           (case py_iter files_urls of
              Inl e \<Rightarrow> Inl e
            | Inr fs \<Rightarrow> (case urls_of fs of Inl e \<Rightarrow> Inl e | Inr us \<Rightarrow> unpack_singleton_list us))
         else Inr files_urls)"

text \<open>
  The body of the loop for one item: \<open>Inl e\<close> when it raises, \<open>Inr None\<close> when the
  item is skipped, \<open>Inr (Some r)\<close> when the record \<open>r\<close> is yielded.
\<close>

definition parse_item ::
  "string list \<Rightarrow> tickers_mapping \<Rightarrow> bool \<Rightarrow> pyval \<Rightarrow> py_error + py_record option" where
  "parse_item tickers m files_urls_as_text i =
     (let matching = matching_tickers_for_item_cik m i;
          matched = matched_ticker_str tickers matching
      in if skip_item tickers matching matched then Inr None
         else (case parsed_line i matched of
                 Inl e \<Rightarrow> Inl e
               | Inr line \<Rightarrow>
                   (case xbrl_files files_urls_as_text i of
                      Inl e \<Rightarrow> Inl e
                    | Inr files_urls \<Rightarrow> Inr (Some (line @ [(''xbrl_files'', files_urls)])))))"

text \<open>
  The loop of the generator: the records yielded, in the order of the yields, and the
  exception that ended the iteration, if one did.
\<close>

fun parse_items ::
  "string list \<Rightarrow> tickers_mapping \<Rightarrow> bool \<Rightarrow> pyval list \<Rightarrow> py_record list \<times> py_error option" where
  "parse_items tickers m fl [] = ([], None)"
| "parse_items tickers m fl (i # items) =
     (case parse_item tickers m fl i of
        Inl e \<Rightarrow> ([], Some e)
      | Inr None \<Rightarrow> parse_items tickers m fl items
      | Inr (Some r) \<Rightarrow> (r # fst (parse_items tickers m fl items),
                            snd (parse_items tickers m fl items)))"

text \<open>Line 81: \<^verbatim>\<open>doc["rss"]["channel"]["item"]\<close>.\<close>

definition feed_item_field :: "pyval \<Rightarrow> py_error + pyval" where
  "feed_item_field doc =
     (case py_getitem doc ''rss'' of Inl e \<Rightarrow> Inl e | Inr rss \<Rightarrow>
       (case py_getitem rss ''channel'' of Inl e \<Rightarrow> Inl e | Inr channel \<Rightarrow>
          py_getitem channel ''item''))"

definition feed_entries :: "pyval \<Rightarrow> py_error + pyval list" where
  "feed_entries doc = (case feed_item_field doc of Inl e \<Rightarrow> Inl e | Inr items \<Rightarrow> py_iter items)"

definition parse_rss_feed_data ::
  "pyval \<Rightarrow> string list \<Rightarrow> tickers_mapping \<Rightarrow> bool \<Rightarrow> py_record list \<times> py_error option" where
  "parse_rss_feed_data doc tickers m files_urls_as_text =
     (case feed_entries doc of
        Inl e \<Rightarrow> ([], Some e)
      | Inr entries \<Rightarrow> parse_items tickers m files_urls_as_text entries)"

text \<open>The field of a yielded record.\<close>

definition field :: "py_record \<Rightarrow> string \<Rightarrow> pyval option" where
  "field r k = map_of r k"

lemmas parse_defs = parse_rss_feed_data_def feed_entries_def feed_item_field_def parse_item_def
  matching_tickers_for_item_cik_def item_cik_def lstrip0_def matched_ticker_str_def skip_item_def
  parsed_line_def record_fields_def filing_def opt_str_def xbrl_files_def unpack_singleton_list_def
  UNKNOWN_TICKER_PLACEHOLDER_def field_def

section \<open>Facts about the pieces of the loop body\<close>

lemma str_join_slash: "2 \<le> length xs \<Longrightarrow> c \<in> set sep \<Longrightarrow> c \<in> set (str_join sep xs)"
  by (induction sep xs rule: str_join.induct) auto

lemma matched_ticker_str_Nil: "matched_ticker_str tickers [] = UNKNOWN_TICKER_PLACEHOLDER"
  by (simp add: matched_ticker_str_def find_None_iff[THEN iffD2])

lemma parse_item_skip_iff:
  "parse_item tickers m fl i = Inr None \<longleftrightarrow>
     skip_item tickers (matching_tickers_for_item_cik m i)
       (matched_ticker_str tickers (matching_tickers_for_item_cik m i))"
  by (simp add: parse_item_def Let_def split: sum.splits)

lemma find_first:
  "\<forall>u \<in> set pre. \<not> P u \<Longrightarrow> P t \<Longrightarrow> find P (pre @ t # post) = Some t"
  by (induction pre) auto

lemma find_singleton: "x \<in> set tickers \<Longrightarrow> find (\<lambda>t. t \<in> set [x]) tickers = Some x"
  by (induction tickers) auto

lemma parse_item_SomeD:
  assumes "parse_item tickers m fl i = Inr (Some r)"
  shows "\<exists>pd t l d v. xbrl_files fl i = Inr v \<and>
           r = record_fields i (matched_ticker_str tickers (matching_tickers_for_item_cik m i)) pd t l d
                 @ [(''xbrl_files'', v)]"
  using assms
  by (auto simp add: parse_item_def parsed_line_def Let_def split: if_splits sum.splits)

lemma field_ticker:
  "field (record_fields i matched pd t l d @ [(''xbrl_files'', v)]) ''ticker'' = Some (PStr matched)"
  by (simp add: field_def record_fields_def)

lemma field_trimmed_cik:
  "field (record_fields i matched pd t l d @ [(''xbrl_files'', v)]) ''trimmed_cik'' =
     Some (opt_str (trimmed_cik_of (item_cik i)))"
  by (simp add: field_def record_fields_def)

lemma field_xbrl_files:
  "field (record_fields i matched pd t l d @ [(''xbrl_files'', v)]) ''xbrl_files'' = Some v"
  by (simp add: field_def record_fields_def)

lemma skip_item_no_filter: "\<not> skip_item [] matching matched"
  by (simp add: skip_item_def)

lemma parse_items_subseq:
  "\<exists>kept. subseq kept items \<and>
     list_all2 (\<lambda>r i. parse_item tickers m fl i = Inr (Some r)) (fst (parse_items tickers m fl items)) kept"
proof (induction items)
  case Nil
  show ?case by simp
next
  case (Cons i items)
  then obtain kept where k: "subseq kept items"
    "list_all2 (\<lambda>r i. parse_item tickers m fl i = Inr (Some r)) (fst (parse_items tickers m fl items)) kept"
    by blast
  show ?case
  proof (cases "parse_item tickers m fl i")
    case (Inl e)
    then show ?thesis by (intro exI[of _ "[]"]) simp
  next
    case (Inr o1)
    show ?thesis
    proof (cases o1)
      case None
      with Inr k show ?thesis by (intro exI[of _ kept]) (simp add: list_emb_Cons)
    next
      case (Some r)
      with Inr k show ?thesis by (intro exI[of _ "i # kept"]) simp
    qed
  qed
qed

section \<open>Filtering\<close>

text \<open>
  C1, as the code has it. With a non-empty filter list an item passes the filter (is not
  skipped) exactly when \<open>matched_ticker_str\<close> is one of the requested tickers and is
  not the \<^verbatim>\<open>UNKNOWN\<close> placeholder; and when no requested ticker contains a
  slash, an item whose \<open>matched_ticker_str\<close> is the slash-joined fallback of two or
  more tickers is skipped.
\<close>

theorem filter_keeps_iff_matched_requested:
  assumes "tickers \<noteq> []"
  shows "(parse_item tickers m fl i \<noteq> Inr None \<longleftrightarrow>
            matched_ticker_str tickers (matching_tickers_for_item_cik m i) \<in> set tickers \<and>
            matched_ticker_str tickers (matching_tickers_for_item_cik m i) \<noteq> UNKNOWN_TICKER_PLACEHOLDER) \<and>
         ((\<forall>t \<in> set tickers. CHR ''/'' \<notin> set t) \<longrightarrow>
            2 \<le> length (matching_tickers_for_item_cik m i) \<longrightarrow>
            matched_ticker_str tickers (matching_tickers_for_item_cik m i) =
              str_join ''/'' (matching_tickers_for_item_cik m i) \<longrightarrow>
            parse_item tickers m fl i = Inr None)"
proof (intro conjI impI)
  let ?mt = "matching_tickers_for_item_cik m i"
  let ?ms = "matched_ticker_str tickers ?mt"
  show "parse_item tickers m fl i \<noteq> Inr None \<longleftrightarrow> ?ms \<in> set tickers \<and> ?ms \<noteq> UNKNOWN_TICKER_PLACEHOLDER"
  proof (cases "?mt = []")
    case True
    then have "?ms = UNKNOWN_TICKER_PLACEHOLDER" by (simp add: matched_ticker_str_Nil)
    with True assms show ?thesis by (simp add: parse_item_skip_iff skip_item_def)
  next
    case False
    with assms show ?thesis by (auto simp add: parse_item_skip_iff skip_item_def)
  qed
next
  let ?mt = "matching_tickers_for_item_cik m i"
  assume noslash: "\<forall>t \<in> set tickers. CHR ''/'' \<notin> set t"
    and len: "2 \<le> length ?mt"
    and fb: "matched_ticker_str tickers ?mt = str_join ''/'' ?mt"
  from len have "CHR ''/'' \<in> set (str_join ''/'' ?mt)" by (rule str_join_slash) simp
  with noslash fb have "matched_ticker_str tickers ?mt \<notin> set tickers" by auto
  with assms show "parse_item tickers m fl i = Inr None"
    by (simp add: parse_item_skip_iff skip_item_def)
qed

theorem filter_keeps_iff_matched_requested_witness:
  "parse_item [''ZETA''] [''1234567'' \<mapsto> [''ZETA'']] False (PDict [(''edgar:xbrlFiling'', PDict [(''edgar:cikNumber'', PStr ''0001234567'')])]) \<noteq> Inr None \<and>
   parse_item [''CCC''] [''1234567'' \<mapsto> [''AAA'', ''BBB'']] False (PDict [(''edgar:xbrlFiling'', PDict [(''edgar:cikNumber'', PStr ''0001234567'')])]) = Inr None"
proof -
  have h: "[''ZETA''] \<noteq> []" "[''CCC''] \<noteq> []" by simp_all
  show ?thesis
    using filter_keeps_iff_matched_requested [OF h(1), of "[''1234567'' \<mapsto> [''ZETA'']]" False "PDict [(''edgar:xbrlFiling'', PDict [(''edgar:cikNumber'', PStr ''0001234567'')])]"]
      filter_keeps_iff_matched_requested [OF h(2), of "[''1234567'' \<mapsto> [''AAA'', ''BBB'']]" False "PDict [(''edgar:xbrlFiling'', PDict [(''edgar:cikNumber'', PStr ''0001234567'')])]"]
    by (simp add: parse_defs)
qed

text \<open>
  The claim as worded fails twice. A requested ticker \<^verbatim>\<open>UNKNOWN\<close> that the mapping
  also carries is matched literally, and the item is skipped all the same; a requested
  ticker \<^verbatim>\<open>AAA/BBB\<close> equals the slash-joined fallback of \<^verbatim>\<open>AAA\<close> and
  \<^verbatim>\<open>BBB\<close>, and the item is yielded.
\<close>

theorem filter_iff_requested_counterexample:
  "matched_ticker_str [''UNKNOWN'']
      (matching_tickers_for_item_cik [''1'' \<mapsto> [''UNKNOWN'']] (PDict [(''edgar:xbrlFiling'', PDict [(''edgar:cikNumber'', PStr ''1'')])])) \<in> set [''UNKNOWN''] \<and>
   parse_item [''UNKNOWN''] [''1'' \<mapsto> [''UNKNOWN'']] False (PDict [(''edgar:xbrlFiling'', PDict [(''edgar:cikNumber'', PStr ''1'')])]) = Inr None \<and>
   matched_ticker_str [''AAA/BBB'']
      (matching_tickers_for_item_cik [''1'' \<mapsto> [''AAA'', ''BBB'']] (PDict [(''edgar:xbrlFiling'', PDict [(''edgar:cikNumber'', PStr ''1'')])])) = str_join ''/'' [''AAA'', ''BBB''] \<and>
   parse_item [''AAA/BBB''] [''1'' \<mapsto> [''AAA'', ''BBB'']] False
      (PDict [(''edgar:xbrlFiling'', PDict [(''edgar:cikNumber'', PStr ''1'')])]) =
     Inr (Some (record_fields (PDict [(''edgar:xbrlFiling'', PDict [(''edgar:cikNumber'', PStr ''1'')])])
                  ''AAA/BBB'' PNone PNone PNone PNone @ [(''xbrl_files'', PNone)]))"
  by (simp add: parse_defs)

text \<open>
  C5. With a non-empty filter list, an item whose trimmed CIK is not a key of the mapping
  (or whose CIK is not a string, so that there is no trimmed CIK), and more generally an
  item with no matching tickers, is skipped.
\<close>

theorem unresolved_cik_discarded_under_filter:
  assumes "tickers \<noteq> []"
  shows "((\<forall>k. trimmed_cik_of (item_cik i) = Some k \<longrightarrow> m k = None) \<longrightarrow> parse_item tickers m fl i = Inr None) \<and>
         (matching_tickers_for_item_cik m i = [] \<longrightarrow> parse_item tickers m fl i = Inr None)"
proof (intro conjI impI)
  assume "matching_tickers_for_item_cik m i = []"
  with assms show "parse_item tickers m fl i = Inr None"
    by (simp add: parse_item_skip_iff skip_item_def)
next
  assume a: "\<forall>k. trimmed_cik_of (item_cik i) = Some k \<longrightarrow> m k = None"
  have "matching_tickers_for_item_cik m i = []"
  proof (cases "trimmed_cik_of (item_cik i)")
    case None
    then show ?thesis by (simp add: matching_tickers_for_item_cik_def)
  next
    case (Some k)
    with a have "m k = None" by simp
    with Some show ?thesis by (simp add: matching_tickers_for_item_cik_def)
  qed
  with assms show "parse_item tickers m fl i = Inr None"
    by (simp add: parse_item_skip_iff skip_item_def)
qed

theorem unresolved_cik_discarded_under_filter_witness:
  "[''ZETA''] \<noteq> [] \<and> parse_item [''ZETA''] Map.empty False (PDict [(''edgar:xbrlFiling'', PDict [(''edgar:cikNumber'', PStr ''0001234567'')])]) = Inr None \<and>
   parse_item [''ZETA''] [''1234567'' \<mapsto> []] True (PDict [(''edgar:xbrlFiling'', PDict [(''edgar:cikNumber'', PStr ''0001234567'')])]) = Inr None"
proof -
  have h: "[''ZETA''] \<noteq> []" by simp
  show ?thesis
    using unresolved_cik_discarded_under_filter [OF h, of "PDict [(''edgar:xbrlFiling'', PDict [(''edgar:cikNumber'', PStr ''0001234567'')])]" Map.empty False]
      unresolved_cik_discarded_under_filter [OF h, of "PDict [(''edgar:xbrlFiling'', PDict [(''edgar:cikNumber'', PStr ''0001234567'')])]" "[''1234567'' \<mapsto> []]" True]
    by (simp add: parse_defs)
qed

text \<open>
  C10. When the filter list contains the placeholder \<^verbatim>\<open>UNKNOWN\<close> and the matching
  tickers of an item are exactly \<^verbatim>\<open>["UNKNOWN"]\<close>, the item is skipped: the test
  against the placeholder comes before the membership test.
\<close>

theorem unknown_ticker_never_filtered_in:
  assumes "UNKNOWN_TICKER_PLACEHOLDER \<in> set tickers"
    and "matching_tickers_for_item_cik m i = [UNKNOWN_TICKER_PLACEHOLDER]"
  shows "parse_item tickers m fl i = Inr None"
proof -
  have "find (\<lambda>t. t \<in> set [UNKNOWN_TICKER_PLACEHOLDER]) tickers = Some UNKNOWN_TICKER_PLACEHOLDER"
    using assms(1) by (rule find_singleton)
  then have "matched_ticker_str tickers [UNKNOWN_TICKER_PLACEHOLDER] = UNKNOWN_TICKER_PLACEHOLDER"
    by (simp add: matched_ticker_str_def UNKNOWN_TICKER_PLACEHOLDER_def)
  moreover from assms(1) have "tickers \<noteq> []" by auto
  ultimately show ?thesis using assms(2)
    by (simp add: parse_item_skip_iff skip_item_def)
qed

theorem unknown_ticker_never_filtered_in_witness:
  "UNKNOWN_TICKER_PLACEHOLDER \<in> set [''AAA'', ''UNKNOWN''] \<and>
   matching_tickers_for_item_cik [''1'' \<mapsto> [''UNKNOWN'']] (PDict [(''edgar:xbrlFiling'', PDict [(''edgar:cikNumber'', PStr ''1'')])]) = [UNKNOWN_TICKER_PLACEHOLDER] \<and>
   parse_item [''AAA'', ''UNKNOWN''] [''1'' \<mapsto> [''UNKNOWN'']] False (PDict [(''edgar:xbrlFiling'', PDict [(''edgar:cikNumber'', PStr ''1'')])]) = Inr None"
proof -
  have h1: "UNKNOWN_TICKER_PLACEHOLDER \<in> set [''AAA'', ''UNKNOWN'']"
    by (simp add: UNKNOWN_TICKER_PLACEHOLDER_def)
  have h2: "matching_tickers_for_item_cik [''1'' \<mapsto> [''UNKNOWN'']] (PDict [(''edgar:xbrlFiling'', PDict [(''edgar:cikNumber'', PStr ''1'')])]) = [UNKNOWN_TICKER_PLACEHOLDER]"
    by (simp add: parse_defs)
  show ?thesis
    using h1 h2 unknown_ticker_never_filtered_in [OF h1 h2, of False] by simp
qed

lemma empty_filter_emits:
  assumes "i = PDict kvs" and "xbrl_files fl i = Inr v"
  shows "\<exists>r. parse_item [] m fl i = Inr (Some r) \<and>
           field r ''ticker'' = Some (PStr (matched_ticker_str [] (matching_tickers_for_item_cik m i)))"
  using assms
  by (simp add: parse_item_def Let_def skip_item_no_filter parsed_line_def field_ticker)

text \<open>
  C4. The claim asks that with an empty filter list every entry is yielded, an entry whose
  CIK is unknown to the mapping or absent with the \<^verbatim>\<open>UNKNOWN\<close> placeholder as its
  ticker. No such entry is skipped, and with \<^verbatim>\<open>files_urls_as_text\<close> off both
  entries of the feed below are yielded with that ticker. With the flag on and no file
  list in the entry, line 159 iterates over \<^verbatim>\<open>None\<close>: the first entry raises
  \<^verbatim>\<open>TypeError\<close>, and neither entry is yielded.
\<close>

theorem empty_filter_entry_lost_without_file_list:
  "parse_rss_feed_data
     (PDict [(''rss'', PDict [(''channel'', PDict [(''item'',
        PList [PDict [(''edgar:xbrlFiling'', PDict [(''edgar:cikNumber'', PStr ''0001234567'')])],
               PDict [(''title'', PStr ''t'')]])])])])
     [] Map.empty True = ([], Some TypeError) \<and>
   map (\<lambda>r. field r ''ticker'')
     (fst (parse_rss_feed_data
       (PDict [(''rss'', PDict [(''channel'', PDict [(''item'',
          PList [PDict [(''edgar:xbrlFiling'', PDict [(''edgar:cikNumber'', PStr ''0001234567'')])],
                 PDict [(''title'', PStr ''t'')]])])])])
       [] Map.empty False))
     = [Some (PStr ''UNKNOWN''), Some (PStr ''UNKNOWN'')]"
  by (simp add: parse_defs)

section \<open>The matched ticker\<close>

text \<open>
  C3, as the code has it. When the first ticker of the filter list that is a member of the
  item's matching tickers is not the empty string, \<open>matched_ticker_str\<close> is that
  ticker: the order of the filter list decides, not the order of the mapping.
\<close>

theorem matched_ticker_first_in_filter_order:
  assumes "tickers = pre @ t # post" and "t \<in> set matching" and "\<forall>u \<in> set pre. u \<notin> set matching"
    and "t \<noteq> []"
  shows "matched_ticker_str tickers matching = t"
proof -
  have "find (\<lambda>t. t \<in> set matching) tickers = Some t"
    using assms(1-3) by (simp add: find_first)
  with assms(4) show ?thesis by (cases t) (simp_all add: matched_ticker_str_def)
qed

theorem matched_ticker_first_in_filter_order_witness:
  "matched_ticker_str [''AAA'', ''BBB''] [''BBB'', ''AAA''] = ''AAA'' \<and>
   matched_ticker_str [''CCC'', ''BBB'', ''AAA''] [''AAA'', ''BBB''] = ''BBB''"
  using matched_ticker_first_in_filter_order [of "[''AAA'', ''BBB'']" "[]" "''AAA''" "[''BBB'']" "[''BBB'', ''AAA'']"]
    matched_ticker_first_in_filter_order [of "[''CCC'', ''BBB'', ''AAA'']" "[''CCC'']" "''BBB''" "[''AAA'']" "[''AAA'', ''BBB'']"]
  by simp

text \<open>
  An empty string is falsy: when it is the first requested ticker among the matching ones,
  the \<^verbatim>\<open>or\<close> chain passes over it and takes the slash-joined string.
\<close>

theorem matched_ticker_empty_string_counterexample:
  "hd [[], ''AAA''] = [] \<and> [] \<in> set [''AAA'', []] \<and>
   matched_ticker_str [[], ''AAA''] [''AAA'', []] = ''AAA/''"
  by (simp add: matched_ticker_str_def)

section \<open>The trimmed CIK\<close>

lemma takeWhile_replicate: "takeWhile (\<lambda>c. c = a) s = replicate (length (takeWhile (\<lambda>c. c = a) s)) a"
  by (induction s) auto

lemma lstrip0_decompose: "\<exists>n. s = replicate n CHR ''0'' @ lstrip0 s"
proof -
  have "s = takeWhile (\<lambda>c. c = CHR ''0'') s @ lstrip0 s"
    by (simp add: lstrip0_def)
  with takeWhile_replicate[of "CHR ''0''" s] show ?thesis by metis
qed

lemma lstrip0_no_leading_zero: "lstrip0 s \<noteq> CHR ''0'' # t"
  unfolding lstrip0_def by (induction s) auto

lemma parse_item_mapping_cong:
  assumes "mapping_get m1 (trimmed_cik_of (item_cik i)) = mapping_get m2 (trimmed_cik_of (item_cik i))"
  shows "parse_item tickers m1 fl i = parse_item tickers m2 fl i"
  using assms by (simp add: parse_item_def matching_tickers_for_item_cik_def)

text \<open>
  C6. For a CIK that is a string, the trimmed CIK is the CIK without its leading zeros: the
  CIK is some zeros followed by the trimmed CIK, which does not start with a zero;
  \<^verbatim>\<open>0000320193\<close> gives \<^verbatim>\<open>320193\<close> and \<^verbatim>\<open>0000000000\<close> the empty string. The
  record carries it, the mapping is read at this key only (two mappings that agree there
  give the same result), and an empty trimmed CIK matches nothing unless the empty string
  itself is a key.
\<close>

theorem trimmed_cik_strips_leading_zeros:
  "(\<exists>n. s = replicate n CHR ''0'' @ lstrip0 s) \<and> (\<forall>t. lstrip0 s \<noteq> CHR ''0'' # t) \<and>
   lstrip0 ''0000320193'' = ''320193'' \<and> lstrip0 ''0000000000'' = [] \<and>
   (item_cik i = PStr s \<longrightarrow>
      (\<forall>r. parse_item tickers m fl i = Inr (Some r) \<longrightarrow>
         field r ''trimmed_cik'' = Some (PStr (lstrip0 s))) \<and>
      (\<forall>m'. m' (lstrip0 s) = m (lstrip0 s) \<longrightarrow>
         parse_item tickers m' fl i = parse_item tickers m fl i) \<and>
      (lstrip0 s = [] \<longrightarrow> m [] = None \<longrightarrow> matching_tickers_for_item_cik m i = []))"
proof (intro conjI allI impI)
  show "\<exists>n. s = replicate n CHR ''0'' @ lstrip0 s" by (rule lstrip0_decompose)
  show "\<And>t. lstrip0 s \<noteq> CHR ''0'' # t" by (rule lstrip0_no_leading_zero)
  show "lstrip0 ''0000320193'' = ''320193''" by (simp add: lstrip0_def)
  show "lstrip0 ''0000000000'' = []" by (simp add: lstrip0_def)
next
  fix r assume c: "item_cik i = PStr s" and r: "parse_item tickers m fl i = Inr (Some r)"
  from parse_item_SomeD[OF r] c show "field r ''trimmed_cik'' = Some (PStr (lstrip0 s))"
    by (auto simp add: field_trimmed_cik opt_str_def)
next
  fix m' assume c: "item_cik i = PStr s" and "m' (lstrip0 s) = m (lstrip0 s)"
  then show "parse_item tickers m' fl i = parse_item tickers m fl i"
    by (intro parse_item_mapping_cong) simp
next
  assume "item_cik i = PStr s" "lstrip0 s = []" "m [] = None"
  then show "matching_tickers_for_item_cik m i = []"
    by (simp add: matching_tickers_for_item_cik_def)
qed

theorem trimmed_cik_strips_leading_zeros_witness:
  "item_cik (PDict [(''edgar:xbrlFiling'', PDict [(''edgar:cikNumber'', PStr ''0000000000'')])]) =
     PStr ''0000000000'' \<and>
   lstrip0 ''0000000000'' = [] \<and>
   matching_tickers_for_item_cik [''0'' \<mapsto> [''ZERO''], ''10'' \<mapsto> [''TEN'']]
     (PDict [(''edgar:xbrlFiling'', PDict [(''edgar:cikNumber'', PStr ''0000000000'')])]) = [] \<and>
   parse_item [] [''0'' \<mapsto> [''ZERO'']] False
     (PDict [(''edgar:xbrlFiling'', PDict [(''edgar:cikNumber'', PStr ''0000000000'')])]) =
   parse_item [] Map.empty False
     (PDict [(''edgar:xbrlFiling'', PDict [(''edgar:cikNumber'', PStr ''0000000000'')])])"
proof -
  let ?i = "PDict [(''edgar:xbrlFiling'', PDict [(''edgar:cikNumber'', PStr ''0000000000'')])]"
  let ?m = "[''0'' \<mapsto> [''ZERO''], ''10'' \<mapsto> [''TEN'']]"
  have c: "item_cik ?i = PStr ''0000000000''" by (simp add: item_cik_def)
  have z: "lstrip0 ''0000000000'' = []" by (simp add: lstrip0_def)
  have k: "?m [] = None" by simp
  have e: "[''0'' \<mapsto> [''ZERO'']] (lstrip0 ''0000000000'') = Map.empty (lstrip0 ''0000000000'')"
    by (simp add: z)
  have a: "matching_tickers_for_item_cik ?m ?i = []"
    using trimmed_cik_strips_leading_zeros [of "''0000000000''" ?i "[]" ?m False] c z k by blast
  have "\<forall>m'. m' (lstrip0 ''0000000000'') = Map.empty (lstrip0 ''0000000000'') \<longrightarrow>
          parse_item [] m' False ?i = parse_item [] Map.empty False ?i"
    using trimmed_cik_strips_leading_zeros [of "''0000000000''" ?i "[]" Map.empty False] c by blast
  with e have b: "parse_item [] [''0'' \<mapsto> [''ZERO'']] False ?i = parse_item [] Map.empty False ?i"
    by blast
  from c z a b show ?thesis by blast
qed

section \<open>The file list\<close>

lemma urls_of_descriptors:
  "list_all2 (\<lambda>f u. \<exists>kvs. f = PDict kvs \<and> map_of kvs ''@edgar:url'' = Some (PStr u)) fs urls \<Longrightarrow>
   urls_of fs = Inr (map PStr urls)"
  by (induction fs urls rule: list_all2_induct) auto

lemma strs_of_map_PStr: "strs_of (map PStr urls) = Some urls"
  by (induction urls) auto

lemma unpack_singleton_list_strs:
  "unpack_singleton_list (map PStr urls) =
     Inr (PStr (case urls of [u] \<Rightarrow> u | _ \<Rightarrow> str_join [CHR 0x0A] urls))"
proof (cases urls)
  case Nil
  then show ?thesis by (simp add: unpack_singleton_list_def)
next
  case (Cons u us)
  show ?thesis
  proof (cases us)
    case Nil
    with Cons show ?thesis by (simp add: unpack_singleton_list_def)
  next
    case (Cons v vs)
    with \<open>urls = u # us\<close> show ?thesis
      by (simp add: unpack_singleton_list_def strs_of_map_PStr)
  qed
qed

lemma xbrl_files_of_list:
  assumes "safe_get i [''edgar:xbrlFiling'', ''edgar:xbrlFiles'', ''edgar:xbrlFile''] = PList fs"
    and "list_all2 (\<lambda>f u. \<exists>kvs. f = PDict kvs \<and> map_of kvs ''@edgar:url'' = Some (PStr u)) fs urls"
  shows "xbrl_files True i = Inr (PStr (case urls of [u] \<Rightarrow> u | _ \<Rightarrow> str_join [CHR 0x0A] urls)) \<and>
         (\<forall>r. parse_item tickers m True i = Inr (Some r) \<longrightarrow>
            field r ''xbrl_files'' = Some (PStr (case urls of [u] \<Rightarrow> u | _ \<Rightarrow> str_join [CHR 0x0A] urls)))"
proof -
  have x: "xbrl_files True i = Inr (PStr (case urls of [u] \<Rightarrow> u | _ \<Rightarrow> str_join [CHR 0x0A] urls))"
    using assms(1) urls_of_descriptors[OF assms(2)]
    by (simp add: xbrl_files_def unpack_singleton_list_strs del: safe_get.simps)
  moreover have "field r ''xbrl_files'' = Some (PStr (case urls of [u] \<Rightarrow> u | _ \<Rightarrow> str_join [CHR 0x0A] urls))"
    if r: "parse_item tickers m True i = Inr (Some r)" for r
    using parse_item_SomeD[OF r] x by (auto simp add: field_xbrl_files)
  ultimately show ?thesis by blast
qed

text \<open>
  C7. The claim asks that with \<^verbatim>\<open>files_urls_as_text\<close> set, a file list of exactly
  one URL becomes that URL, and one of two or more URLs their newline-joined string. Two
  descriptors arrive as a list and are joined in their order. A single descriptor arrives
  from \<^verbatim>\<open>xmltodict\<close> as a dictionary, not as a list of one: line 159 iterates over
  its keys and calls \<^verbatim>\<open>get\<close> on a string, which raises
  \<^verbatim>\<open>AttributeError\<close>, so no record is yielded.
\<close>

theorem lone_file_descriptor_raises:
  "xbrl_files True (PDict [(''edgar:xbrlFiling'', PDict [(''edgar:xbrlFiles'', PDict [(''edgar:xbrlFile'',
      PDict [(''@edgar:sequence'', PStr ''1''), (''@edgar:url'', PStr ''http://x/doc.xml'')])])])])
     = Inl AttributeError \<and>
   parse_item [] Map.empty True
     (PDict [(''edgar:xbrlFiling'', PDict [(''edgar:xbrlFiles'', PDict [(''edgar:xbrlFile'',
        PDict [(''@edgar:sequence'', PStr ''1''), (''@edgar:url'', PStr ''http://x/doc.xml'')])])])])
     = Inl AttributeError \<and>
   xbrl_files True (PDict [(''edgar:xbrlFiling'', PDict [(''edgar:xbrlFiles'', PDict [(''edgar:xbrlFile'',
      PList [PDict [(''@edgar:sequence'', PStr ''1''), (''@edgar:url'', PStr ''url1'')],
             PDict [(''@edgar:sequence'', PStr ''2''), (''@edgar:url'', PStr ''url2'')]])])])])
     = Inr (PStr [CHR ''u'', CHR ''r'', CHR ''l'', CHR ''1'', CHR 0x0A, CHR ''u'', CHR ''r'', CHR ''l'', CHR ''2''])"
  by (simp add: parse_defs)

text \<open>
  C8. The claim asks that a missing nested field never makes record construction fail,
  the file list included. On an item without a file list and with
  \<^verbatim>\<open>files_urls_as_text\<close> set, line 159 iterates over \<^verbatim>\<open>None\<close> and raises
  \<^verbatim>\<open>TypeError\<close>; with the flag off the same item is yielded, its
  \<^verbatim>\<open>xbrl_files\<close> being \<^verbatim>\<open>None\<close>.
\<close>

theorem missing_file_list_raises:
  "parse_item [] Map.empty True
     (PDict [(''title'', PStr ''t''),
             (''edgar:xbrlFiling'', PDict [(''edgar:cikNumber'', PStr ''0001234567'')])]) = Inl TypeError \<and>
   (\<exists>r. parse_item [] Map.empty False
     (PDict [(''title'', PStr ''t''),
             (''edgar:xbrlFiling'', PDict [(''edgar:cikNumber'', PStr ''0001234567'')])]) = Inr (Some r)
      \<and> field r ''xbrl_files'' = Some PNone \<and> field r ''title'' = Some (PStr ''t''))"
  by (simp add: parse_defs)

section \<open>The whole feed\<close>

text \<open>
  C9. The records yielded are those of a subsequence of the feed's entries, in the order
  of the entries: filtering removes entries and never reorders them. When the entries
  cannot be read, nothing is yielded.
\<close>

theorem records_preserve_feed_order:
  "(\<forall>entries. feed_entries doc = Inr entries \<longrightarrow>
      (\<exists>kept. subseq kept entries \<and>
         list_all2 (\<lambda>r i. parse_item tickers m fl i = Inr (Some r))
           (fst (parse_rss_feed_data doc tickers m fl)) kept)) \<and>
   (\<forall>e. feed_entries doc = Inl e \<longrightarrow> parse_rss_feed_data doc tickers m fl = ([], Some e))"
  using parse_items_subseq by (simp add: parse_rss_feed_data_def)

theorem records_preserve_feed_order_witness:
  "feed_entries (PDict [(''rss'', PDict [(''channel'', PDict [(''item'', PList [(PDict [(''edgar:xbrlFiling'', PDict [(''edgar:cikNumber'', PStr ''1'')])]), (PDict [(''edgar:xbrlFiling'', PDict [(''edgar:cikNumber'', PStr ''0001234567'')])])])])])]) =
     Inr [(PDict [(''edgar:xbrlFiling'', PDict [(''edgar:cikNumber'', PStr ''1'')])]), (PDict [(''edgar:xbrlFiling'', PDict [(''edgar:cikNumber'', PStr ''0001234567'')])])] \<and>
   (\<exists>kept. subseq kept [(PDict [(''edgar:xbrlFiling'', PDict [(''edgar:cikNumber'', PStr ''1'')])]), (PDict [(''edgar:xbrlFiling'', PDict [(''edgar:cikNumber'', PStr ''0001234567'')])])] \<and>
      list_all2 (\<lambda>r i. parse_item [''ZETA''] [''1234567'' \<mapsto> [''ZETA'']] False i = Inr (Some r))
        (fst (parse_rss_feed_data
           (PDict [(''rss'', PDict [(''channel'', PDict [(''item'', PList [(PDict [(''edgar:xbrlFiling'', PDict [(''edgar:cikNumber'', PStr ''1'')])]), (PDict [(''edgar:xbrlFiling'', PDict [(''edgar:cikNumber'', PStr ''0001234567'')])])])])])])
           [''ZETA''] [''1234567'' \<mapsto> [''ZETA'']] False)) kept)"
proof -
  have h: "feed_entries (PDict [(''rss'', PDict [(''channel'', PDict [(''item'', PList [(PDict [(''edgar:xbrlFiling'', PDict [(''edgar:cikNumber'', PStr ''1'')])]), (PDict [(''edgar:xbrlFiling'', PDict [(''edgar:cikNumber'', PStr ''0001234567'')])])])])])]) =
     Inr [(PDict [(''edgar:xbrlFiling'', PDict [(''edgar:cikNumber'', PStr ''1'')])]), (PDict [(''edgar:xbrlFiling'', PDict [(''edgar:cikNumber'', PStr ''0001234567'')])])]"
    by (simp add: feed_entries_def feed_item_field_def)
  show ?thesis
    using h records_preserve_feed_order
      [of "PDict [(''rss'', PDict [(''channel'', PDict [(''item'', PList [PDict [(''edgar:xbrlFiling'', PDict [(''edgar:cikNumber'', PStr ''1'')])], PDict [(''edgar:xbrlFiling'', PDict [(''edgar:cikNumber'', PStr ''0001234567'')])]])])])]"
          "[''ZETA'']" "[''1234567'' \<mapsto> [''ZETA'']]" False]
    by blast
qed

text \<open>
  C2. The claim asks that a single entry under \<^verbatim>\<open>rss.channel.item\<close> is processed
  like a list of one entry. The loop of line 82 iterates over the value as it is: over the
  keys of the entry's dictionary. With the filter \<^verbatim>\<open>["ZETA"]\<close> each key is skipped
  and nothing is yielded, where the same entry in a list gives one record with ticker
  \<^verbatim>\<open>ZETA\<close> and trimmed CIK \<^verbatim>\<open>1234567\<close>.
\<close>

theorem single_item_feed_iterates_keys:
  "parse_rss_feed_data
     (PDict [(''rss'', PDict [(''channel'', PDict [(''item'',
        PDict [(''edgar:xbrlFiling'', PDict [(''edgar:cikNumber'', PStr ''0001234567'')])])])])])
     [''ZETA''] [''1234567'' \<mapsto> [''ZETA'']] False = ([], None) \<and>
   map (\<lambda>r. (field r ''ticker'', field r ''trimmed_cik''))
     (fst (parse_rss_feed_data
       (PDict [(''rss'', PDict [(''channel'', PDict [(''item'',
          PList [PDict [(''edgar:xbrlFiling'', PDict [(''edgar:cikNumber'', PStr ''0001234567'')])]])])])])
       [''ZETA''] [''1234567'' \<mapsto> [''ZETA'']] False))
     = [(Some (PStr ''ZETA''), Some (PStr ''1234567''))]"
  by (simp add: parse_defs)

end
